theory Spec2Isabelle
  imports Main
begin

section \<open>Python values, exceptions and the observable environment\<close>

text \<open>
  The shell of pysip2 (\<^verbatim>\<open>src/pysip2/shell.py\<close>) is embedded function by function.
  Strings are \<^typ>\<open>string\<close>; a character is read as the code point of the same number
  (code points below 256). A Python attribute holding \<^verbatim>\<open>None\<close> or a \<^verbatim>\<open>str\<close> is a
  \<^typ>\<open>string option\<close>. Every exception the shell can meet is a value of \<open>exn\<close>:
  \<open>TypeError_int\<close> is the \<^verbatim>\<open>TypeError\<close> of \<^verbatim>\<open>int(None)\<close>, \<open>TypeError_args\<close> the
  \<^verbatim>\<open>TypeError\<close> of a call whose arguments do not fit the parameters, and
  \<open>ExternalError d\<close> an exception raised inside a collaborator (the protocol client,
  \<^verbatim>\<open>logging\<close>, \<^verbatim>\<open>configparser\<close>), described by \<open>d\<close>. The message of a
  \<^verbatim>\<open>ValueError\<close> is not modelled.
\<close>

datatype exn =
    IndexError
  | ValueError
  | TypeError_int
  | TypeError_args
  | AttributeError string
  | KeyError string
  | SystemExit int
  | ExternalError string

text \<open>What a handler returns: \<^verbatim>\<open>True\<close>, \<^verbatim>\<open>False\<close>, or \<^verbatim>\<open>None\<close> when it ends without
  a \<^verbatim>\<open>return\<close> statement.\<close>

datatype pyval = PyNone | PyBool bool

fun truthy :: "pyval \<Rightarrow> bool" where
  "truthy PyNone = False"
| "truthy (PyBool b) = b"

datatype stream = Stdout | Stderr

section \<open>The tokenizer: \<^verbatim>\<open>shlex.split(line, comments=True)\<close>\<close>

text \<open>
  \<^verbatim>\<open>shlex.split\<close> is the standard library's lexer in POSIX mode with
  \<^verbatim>\<open>whitespace_split = True\<close>, \<^verbatim>\<open>commenters = '#'\<close> and no punctuation characters.
  \<open>read_token\<close> follows \<^verbatim>\<open>shlex.read_token\<close> branch by branch; the lexer's
  \<^verbatim>\<open>state\<close> attribute is \<open>lexstate\<close>: \<open>LEof\<close> for \<^verbatim>\<open>None\<close>, \<open>LWs\<close> for \<^verbatim>\<open>' '\<close>,
  \<open>LWord\<close> for \<^verbatim>\<open>'a'\<close>, \<open>LQuote q\<close> for a state that is the quote character \<open>q\<close>,
  \<open>LEscape e\<close> for a state that is the escape character \<open>e\<close>.
\<close>

datatype lexstate = LEof | LWs | LWord | LQuote char | LEscape char

definition whitespace :: "char set" where
  "whitespace = {CHR '' '', CHR 0x09, CHR 0x0D, CHR 0x0A}"

definition commenters :: "char set" where
  "commenters = {CHR ''#''}"

definition quotes :: "char set" where
  "quotes = {CHR 0x27, CHR 0x22}"

definition escape :: "char set" where
  "escape = {CHR 0x5C}"

definition escapedquotes :: "char set" where
  "escapedquotes = {CHR 0x22}"

text \<open>\<^verbatim>\<open>instream.readline()\<close>: drop the rest of the current line, its newline included.\<close>

fun readline :: "string \<Rightarrow> string" where
  "readline [] = []"
| "readline (c # cs) = (if c = CHR 0x0A then cs else readline cs)"

text \<open>The end of \<^verbatim>\<open>read_token\<close>: an empty token that was never quoted is \<^verbatim>\<open>None\<close>.\<close>

definition emit :: "string \<Rightarrow> bool \<Rightarrow> lexstate \<Rightarrow> string
    \<Rightarrow> exn + (string option \<times> lexstate \<times> string)" where
  "emit tok quoted st rest =
     Inr (if \<not> quoted \<and> tok = [] then None else Some tok, st, rest)"

text \<open>
  Arguments: the lexer state, the token built so far, the local \<^verbatim>\<open>quoted\<close>, the local
  \<^verbatim>\<open>escapedstate\<close>, and the unread input. The result is the token (or \<^verbatim>\<open>None\<close>), the
  state the lexer is left in, and the unread input. In state \<^verbatim>\<open>' '\<close> and in state
  \<^verbatim>\<open>'a'\<close> the word-character branch and the \<^verbatim>\<open>whitespace_split\<close> branch do the same
  thing, so every character that is not whitespace, a commenter, an escape or a quote
  takes it. The two \<^verbatim>\<open>ValueError\<close>s are \<^verbatim>\<open>No closing quotation\<close> (end of input inside
  quotes) and \<^verbatim>\<open>No escaped character\<close> (end of input after the escape character).
\<close>

function (sequential) read_token :: "lexstate \<Rightarrow> string \<Rightarrow> bool \<Rightarrow> lexstate \<Rightarrow> string
    \<Rightarrow> exn + (string option \<times> lexstate \<times> string)" where
  "read_token LEof tok quoted es cs = emit [] quoted LEof (tl cs)"
| "read_token LWs tok quoted es [] = emit tok quoted LEof []"
| "read_token LWs tok quoted es (c # cs) =
     (if c \<in> whitespace then
        (if tok \<noteq> [] \<or> quoted then emit tok quoted LWs cs
         else read_token LWs tok quoted es cs)
      else if c \<in> commenters then read_token LWs tok quoted es (readline cs)
      else if c \<in> escape then read_token (LEscape c) tok quoted LWord cs
      else if c \<in> quotes then read_token (LQuote c) tok quoted es cs
      else read_token LWord [c] quoted es cs)"
| "read_token (LQuote q) tok quoted es [] = Inl ValueError"
| "read_token (LQuote q) tok quoted es (c # cs) =
     (if c = q then read_token LWord tok True es cs
      else if c \<in> escape \<and> q \<in> escapedquotes
        then read_token (LEscape c) tok True (LQuote q) cs
      else read_token (LQuote q) (tok @ [c]) True es cs)"
| "read_token (LEscape e) tok quoted es [] = Inl ValueError"
| "read_token (LEscape e) tok quoted es (c # cs) =
     (let tok' = (case es of
                    LQuote q \<Rightarrow> (if c \<noteq> e \<and> c \<noteq> q then tok @ [e] else tok)
                  | _ \<Rightarrow> tok)
      in read_token es (tok' @ [c]) quoted es cs)"
| "read_token LWord tok quoted es [] = emit tok quoted LEof []"
| "read_token LWord tok quoted es (c # cs) =
     (if c \<in> whitespace then
        (if tok \<noteq> [] \<or> quoted then emit tok quoted LWs cs
         else read_token LWs tok quoted es cs)
      else if c \<in> commenters then
        (if tok \<noteq> [] \<or> quoted then emit tok quoted LWs (readline cs)
         else read_token LWs tok quoted es (readline cs))
      else if c \<in> quotes then read_token (LQuote c) tok quoted es cs
      else if c \<in> escape then read_token (LEscape c) tok quoted LWord cs
      else read_token LWord (tok @ [c]) quoted es cs)"
  by pat_completeness auto
termination
proof -
  have "length (readline cs) < Suc (length cs)" for cs
    by (induction cs) auto
  then show ?thesis
    by (relation "measure (\<lambda>(st, tok, quoted, es, cs). length cs)") auto
qed

text \<open>
  \<^verbatim>\<open>list(lex)\<close>: tokens are read until \<^verbatim>\<open>read_token\<close> yields \<^verbatim>\<open>None\<close>. Each call starts
  with an empty token, \<^verbatim>\<open>quoted = False\<close> and \<^verbatim>\<open>escapedstate = ' '\<close>; the lexer state
  is carried over. A token is only returned after at least one character was read,
  which is why the iteration ends.
\<close>

function shlex_tokens :: "lexstate \<Rightarrow> string \<Rightarrow> exn + string list" where
  "shlex_tokens st cs =
     (case read_token st [] False LWs cs of
        Inl e \<Rightarrow> Inl e
      | Inr (None, st', rest) \<Rightarrow> Inr []
      | Inr (Some t, st', rest) \<Rightarrow>
          (case shlex_tokens st' rest of
             Inl e \<Rightarrow> Inl e
           | Inr ts \<Rightarrow> Inr (t # ts)))"
  by pat_completeness auto
termination
proof -
  have rl: "length (readline cs) \<le> length cs" for cs
    by (induction cs) auto
  have le: "read_token st tok q es cs = Inr (r, st', rest) \<Longrightarrow> length rest \<le> length cs - 1"
    for st tok q es cs r st' rest
  proof (induction st tok q es cs rule: read_token.induct)
    case (3 tok quoted es c cs)
    have "length (readline cs) - 1 \<le> length cs" using rl [of cs] by arith
    with 3 show ?case by (auto simp: emit_def split: if_splits)
  next
    case (9 tok quoted es c cs)
    have "length (readline cs) - 1 \<le> length cs" using rl [of cs] by arith
    with 9 rl [of cs] show ?case by (auto simp: emit_def split: if_splits)
  qed (auto simp: emit_def Let_def split: if_splits lexstate.splits)
  have nil: "read_token st [] False es [] = Inr (r, st', rest) \<Longrightarrow> r = None"
    for st es r st' rest
    by (cases st) (auto simp: emit_def)
  have shorter: "length rest < length cs"
    if "read_token st [] False es cs = Inr (Some t, st', rest)" for st es cs t st' rest
  proof (cases cs)
    case Nil
    with that nil show ?thesis by fastforce
  next
    case (Cons c cs')
    with le [OF that] show ?thesis by simp
  qed
  show ?thesis
    by (relation "measure (\<lambda>(st, cs). length cs)") (auto dest: shorter)
qed

declare shlex_tokens.simps [simp del]

definition shlex_split :: "string \<Rightarrow> exn + string list" where
  "shlex_split s = shlex_tokens LWs s"

section \<open>Rendering: \<^verbatim>\<open>repr\<close> of a string, \<^verbatim>\<open>str\<close> of a list, \<^verbatim>\<open>int\<close> of a string\<close>

definition hexdigit :: "nat \<Rightarrow> char" where
  "hexdigit n = ''0123456789abcdef'' ! (n mod 16)"

definition printable :: "char \<Rightarrow> bool" where
  "printable c = (let n = (of_char c :: nat) in
     \<not> (n < 0x20 \<or> n = 0x7F \<or> (0x80 \<le> n \<and> n \<le> 0xA0) \<or> n = 0xAD))"

text \<open>One character of \<^verbatim>\<open>repr(s)\<close>, for the quote character \<open>q\<close> chosen for \<open>s\<close>.\<close>

definition repr_char :: "char \<Rightarrow> char \<Rightarrow> string" where
  "repr_char q c =
     (if c = q \<or> c = CHR 0x5C then [CHR 0x5C, c]
      else if c = CHR 0x09 then [CHR 0x5C, CHR ''t'']
      else if c = CHR 0x0A then [CHR 0x5C, CHR ''n'']
      else if c = CHR 0x0D then [CHR 0x5C, CHR ''r'']
      else if printable c then [c]
      else [CHR 0x5C, CHR ''x'', hexdigit (of_char c div 16), hexdigit (of_char c)])"

text \<open>\<^verbatim>\<open>repr\<close> of a \<^verbatim>\<open>str\<close>: double quotes only when the string has a single quote and
  no double quote.\<close>

definition py_repr :: "string \<Rightarrow> string" where
  "py_repr s =
     (let q = (if CHR 0x27 \<in> set s \<and> CHR 0x22 \<notin> set s then CHR 0x22 else CHR 0x27)
      in [q] @ concat (map (repr_char q) s) @ [q])"

fun join :: "string \<Rightarrow> string list \<Rightarrow> string" where
  "join sep [] = []"
| "join sep [x] = x"
| "join sep (x # y # ys) = x @ sep @ join sep (y # ys)"

text \<open>\<^verbatim>\<open>str(list(args))\<close> for a tuple of strings.\<close>

definition py_str_list :: "string list \<Rightarrow> string" where
  "py_str_list xs = ''['' @ join '', '' (map py_repr xs) @ '']''"

text \<open>\<^verbatim>\<open>'{0}'.format(v)\<close> for a value that is \<^verbatim>\<open>None\<close> or a \<^verbatim>\<open>str\<close>.\<close>

fun py_format :: "string option \<Rightarrow> string" where
  "py_format None = ''None''"
| "py_format (Some s) = s"

text \<open>
  \<^verbatim>\<open>int(x)\<close> in base 10, as CPython 3.11 does it. \<^verbatim>\<open>None\<close> is a \<^verbatim>\<open>TypeError\<close>. A string is
  stripped of surrounding whitespace, may carry one sign, and is a non-empty run of
  decimal digits in which single underscores may separate digits; anything else is a
  \<^verbatim>\<open>ValueError\<close>. The whitespace stripped is tab, line feed, vertical tab, form feed,
  carriage return and space, and the two spaces of the Latin-1 range (0x85 and 0xA0);
  the separators 0x1C to 0x1F are not stripped. A literal with more than
  \<open>int_max_str_digits\<close> digits (signs, underscores and whitespace not counted, leading
  zeros counted) is a \<^verbatim>\<open>ValueError\<close> too; interpreters without that limit accept every
  string accepted here.
\<close>

definition int_space :: "char \<Rightarrow> bool" where
  "int_space c = (let n = (of_char c :: nat) in
     (0x09 \<le> n \<and> n \<le> 0x0D) \<or> n = 0x20 \<or> n = 0x85 \<or> n = 0xA0)"

definition strip :: "string \<Rightarrow> string" where
  "strip s = rev (dropWhile int_space (rev (dropWhile int_space s)))"

definition is_digit :: "char \<Rightarrow> bool" where
  "is_digit c = (let n = (of_char c :: nat) in 0x30 \<le> n \<and> n \<le> 0x39)"

definition digit_val :: "char \<Rightarrow> nat" where
  "digit_val c = of_char c - 0x30"

fun digits :: "nat \<Rightarrow> bool \<Rightarrow> string \<Rightarrow> nat option" where
  "digits acc after_us [] = (if after_us then None else Some acc)"
| "digits acc after_us (c # cs) =
     (if is_digit c then digits (10 * acc + digit_val c) False cs
      else if c = CHR ''_'' \<and> \<not> after_us then digits acc True cs
      else None)"

definition unsigned :: "string \<Rightarrow> nat option" where
  "unsigned s = (case s of [] \<Rightarrow> None
     | c # cs \<Rightarrow> if is_digit c then digits (digit_val c) False cs else None)"

definition int_max_str_digits :: nat where
  "int_max_str_digits = 4300"

definition py_int :: "string option \<Rightarrow> exn + int" where
  "py_int x =
     (case x of
        None \<Rightarrow> Inl TypeError_int
      | Some s \<Rightarrow>
          (let t = strip s;
               (neg, body) = (case t of
                   c # cs \<Rightarrow> if c = CHR ''-'' then (True, cs)
                             else if c = CHR ''+'' then (False, cs) else (False, t)
                 | [] \<Rightarrow> (False, t))
           in case unsigned body of
                None \<Rightarrow> Inl ValueError
              | Some n \<Rightarrow>
                  if int_max_str_digits < length (filter is_digit body) then Inl ValueError
                  else Inr (if neg then - int n else int n)))"

section \<open>The configuration object: \<^verbatim>\<open>ConfigHandler\<close>\<close>

text \<open>An instance attribute is either assigned (\<open>Attr v\<close>) or was never assigned
  (\<open>Unset\<close>); reading an unassigned attribute raises \<^verbatim>\<open>AttributeError\<close>.\<close>

datatype 'a attribute = Unset | Attr 'a

text \<open>\<^verbatim>\<open>ConfigHandler.__init__\<close> assigns every attribute below except
  \<^verbatim>\<open>location_code\<close>, which only \<^verbatim>\<open>setup\<close> assigns.\<close>

record ConfigHandler =
  configfile :: string
  server :: "string option"
  port :: "string option"
  institution :: "string option"
  username :: "string option"
  password :: "string option"
  autostart :: bool
  location_code :: "string option attribute"

definition ConfigHandler_init :: ConfigHandler where
  "ConfigHandler_init =
     \<lparr>configfile = ''pysip2-client.ini'', server = None, port = None, institution = None,
      username = None, password = None, autostart = False, location_code = Unset\<rparr>"

text \<open>
  The files are outside the program: \<open>fileConfig_result path\<close> is \<open>Some d\<close> when
  \<^verbatim>\<open>logging.config.fileConfig(path)\<close> raises (described by \<open>d\<close>); \<open>parser_read path\<close> is
  \<open>Inl d\<close> when \<^verbatim>\<open>config.read(path)\<close> raises, else the sections read. A section gives,
  for an option name, what \<^verbatim>\<open>config[section].get(name, None)\<close> does: \<open>Inr v\<close> when it
  returns \<open>v\<close> (\<^verbatim>\<open>None\<close> for an option the file does not give), \<open>Inl d\<close> when it raises
  (a value whose \<^verbatim>\<open>%\<close> interpolation cannot be done).
\<close>

type_synonym ini_section = "string \<Rightarrow> string + string option"

type_synonym ini = "string \<rightharpoonup> ini_section"

record files =
  fileConfig_result :: "string \<Rightarrow> string option"
  parser_read :: "string \<Rightarrow> string + ini"

text \<open>
  \<^verbatim>\<open>setup\<close> assigns the six attributes one after the other, so an exception raised by one
  \<^verbatim>\<open>get\<close> leaves the earlier assignments in place. The result is \<open>Inr\<close> of the object when
  \<^verbatim>\<open>setup\<close> returns, and \<open>Inl\<close> of the exception with the object as it then is when it
  raises. \<open>assign_option\<close> is one statement \<^verbatim>\<open>self.f = config['client'].get(name, None)\<close>.
\<close>

definition assign_option :: "ini_section \<Rightarrow> string
    \<Rightarrow> (string option \<Rightarrow> ConfigHandler \<Rightarrow> ConfigHandler)
    \<Rightarrow> (exn \<times> ConfigHandler) + ConfigHandler \<Rightarrow> (exn \<times> ConfigHandler) + ConfigHandler" where
  "assign_option sect name upd r =
     (case r of
        Inl x \<Rightarrow> Inl x
      | Inr self \<Rightarrow>
          (case sect name of
             Inl d \<Rightarrow> Inl (ExternalError d, self)
           | Inr v \<Rightarrow> Inr (upd v self)))"

definition setup_config :: "files \<Rightarrow> ConfigHandler \<Rightarrow> (exn \<times> ConfigHandler) + ConfigHandler" where
  "setup_config fs self =
     (case fileConfig_result fs (configfile self) of
        Some d \<Rightarrow> Inl (ExternalError d, self)
      | None \<Rightarrow>
          (case parser_read fs (configfile self) of
             Inl d \<Rightarrow> Inl (ExternalError d, self)
           | Inr config \<Rightarrow>
               (case config ''client'' of
                  None \<Rightarrow> Inr self
                | Some sect \<Rightarrow>
                    assign_option sect ''location_code'' (\<lambda>v c. c\<lparr>location_code := Attr v\<rparr>)
                   (assign_option sect ''password'' (\<lambda>v c. c\<lparr>password := v\<rparr>)
                   (assign_option sect ''username'' (\<lambda>v c. c\<lparr>username := v\<rparr>)
                   (assign_option sect ''institution'' (\<lambda>v c. c\<lparr>institution := v\<rparr>)
                   (assign_option sect ''port'' (\<lambda>v c. c\<lparr>port := v\<rparr>)
                   (assign_option sect ''server'' (\<lambda>v c. c\<lparr>server := v\<rparr>)
                     (Inr self)))))))))"

section \<open>The protocol client, a collaborator\<close>

text \<open>
  Modelled from the spec: \<^verbatim>\<open>pysip2.client.Client\<close> is not among the sources at hand, so
  its behaviour is a parameter. The specification's collaborator contract gives it
  \<^verbatim>\<open>connect()\<close>, which may fail, \<^verbatim>\<open>login(username, password, locationCode)\<close> giving a
  boolean, a status request giving a response with named fields, a patron-information
  request giving a printable response, and a settable default institution. Every
  constructor and method call of the shell is appended to a log of \<open>call\<close>s; what a call
  does is read from \<open>collab\<close> at the log that ends with this call: \<open>Inl d\<close> (or
  \<open>Some d\<close> for \<open>connect_result\<close>) is an exception raised inside the client, described
  by \<open>d\<close>.
\<close>

datatype call =
    NewClient "string option" int
  | Connect
  | Login "string option" "string option" "string option"
  | ScStatus
  | PatronInfoRequest string

text \<open>A response: \<open>online_status\<close> is what evaluating
  \<^verbatim>\<open>resp.get_fixed_field_by_name('online_status').value\<close> gives (\<open>Inl d\<close> when that raises),
  \<open>resp_repr\<close> is \<^verbatim>\<open>repr(resp)\<close>.\<close>

record response =
  online_status :: "string + string"
  resp_repr :: string

record collab =
  connect_result :: "call list \<Rightarrow> string option"
  login_result :: "call list \<Rightarrow> string + bool"
  sc_status_result :: "call list \<Rightarrow> string + response"
  patron_info_result :: "call list \<Rightarrow> string + response"

text \<open>The client object as the shell sees it: what it was built from, and the attribute
  the shell assigns.\<close>

record sip_client =
  client_server :: "string option"
  client_port :: int
  default_institution :: "string option"

section \<open>The dispatcher: \<^verbatim>\<open>CommandRunner\<close>\<close>

text \<open>The registry stores bound methods; \<open>handler\<close> names them. Every one of them is
  declared \<^verbatim>\<open>def h(self, *args)\<close>: no required positional parameter, and a \<^verbatim>\<open>*args\<close>
  parameter. \<open>signature\<close> gives that pair.\<close>

datatype handler =
  H_help | H_echo | H_exit | H_connect | H_login | H_status | H_start | H_patron_info

fun signature :: "handler \<Rightarrow> nat \<times> bool" where
  "signature H_help = (0, True)"
| "signature H_echo = (0, True)"
| "signature H_exit = (0, True)"
| "signature H_connect = (0, True)"
| "signature H_login = (0, True)"
| "signature H_status = (0, True)"
| "signature H_start = (0, True)"
| "signature H_patron_info = (0, True)"

record entry =
  fn :: handler
  desc :: string

text \<open>The object's attributes, with the two things a run can be observed by: the lines
  printed (\<open>printed\<close>, one element per \<^verbatim>\<open>print\<close> call) and the log of client calls.\<close>

record runner =
  client :: "sip_client option"
  config :: ConfigHandler
  commands :: "string \<rightharpoonup> entry"
  commands_sorted :: "string list"
  printed :: "(stream \<times> string) list"
  calls :: "call list"

type_synonym result = "(exn + pyval) \<times> runner"

definition print :: "stream \<Rightarrow> string \<Rightarrow> runner \<Rightarrow> runner" where
  "print f text s = s\<lparr>printed := printed s @ [(f, text)]\<rparr>"

definition log_call :: "call \<Rightarrow> runner \<Rightarrow> runner" where
  "log_call c s = s\<lparr>calls := calls s @ [c]\<rparr>"

definition add_command :: "string \<Rightarrow> handler \<Rightarrow> string \<Rightarrow> runner \<Rightarrow> runner" where
  "add_command cmd f d s =
     s\<lparr>commands_sorted := commands_sorted s @ [cmd],
       commands := (commands s)(cmd \<mapsto> \<lparr>fn = f, desc = d\<rparr>)\<rparr>"

text \<open>\<^verbatim>\<open>CommandRunner.__init__\<close>; \<^verbatim>\<open>_\<close> (gettext with no catalogue) returns its argument.\<close>

definition CommandRunner_init :: "ConfigHandler \<Rightarrow> runner" where
  "CommandRunner_init conf =
     (add_command ''patron-info'' H_patron_info
        ''Send a 63 Patron Information Request message.''
      (add_command ''start'' H_start
        ''Shortcut for a combination of \"connect\", \"login\", and \"status\" commands.''
      (add_command ''status'' H_status ''Send a 99 SC Status request message.''
      (add_command ''login'' H_login ''Send a 93 Login request.''
      (add_command ''connect'' H_connect ''Open a network connection to the SIP server.''
      (add_command ''quit'' H_exit ''Exit shell''
      (add_command ''exit'' H_exit ''Exit shell''
      (add_command ''echo'' H_echo ''Echo command with arguments''
      (add_command ''help'' H_help ''Display help message''
        \<lparr>client = None, config = conf, commands = Map.empty, commands_sorted = [],
         printed = [], calls = []\<rparr>)))))))))"

subsection \<open>The handlers\<close>

text \<open>The loop of \<^verbatim>\<open>help\<close> over \<^verbatim>\<open>commands_sorted\<close>; \<^verbatim>\<open>self.commands[cmd]\<close> raises
  \<^verbatim>\<open>KeyError\<close> for a name that has no entry.\<close>

fun help_loop :: "runner \<Rightarrow> string list \<Rightarrow> exn option \<times> runner" where
  "help_loop s [] = (None, s)"
| "help_loop s (cmd # rest) =
     (case commands s cmd of
        None \<Rightarrow> (Some (KeyError cmd), s)
      | Some e \<Rightarrow> help_loop (print Stdout (''  '' @ cmd @ '' - '' @ desc e) s) rest)"

definition help_cmd :: "runner \<Rightarrow> string list \<Rightarrow> result" where
  "help_cmd s args =
     (case help_loop (print Stdout ''Commands:'' s) (commands_sorted s) of
        (Some e, s') \<Rightarrow> (Inl e, s')
      | (None, s') \<Rightarrow> (Inr (PyBool True), s'))"

definition exit_cmd :: "runner \<Rightarrow> string list \<Rightarrow> result" where
  "exit_cmd s args = (Inl (SystemExit 0), print Stdout ''Goodbye'' s)"

text \<open>\<^verbatim>\<open>echo\<close> has no \<^verbatim>\<open>return\<close> statement: its value is \<^verbatim>\<open>None\<close>.\<close>

definition echo :: "runner \<Rightarrow> string list \<Rightarrow> result" where
  "echo s args = (Inr PyNone, print Stdout (''echo args='' @ py_str_list args) s)"

text \<open>
  \<^verbatim>\<open>connect\<close>: \<^verbatim>\<open>int(conf.port)\<close>, the constructor and the assignment of
  \<^verbatim>\<open>default_institution\<close> come before the \<^verbatim>\<open>try\<close>; only \<^verbatim>\<open>self.client.connect()\<close> is
  inside it, under a bare \<^verbatim>\<open>except\<close>.
\<close>

definition connect :: "collab \<Rightarrow> runner \<Rightarrow> string list \<Rightarrow> result" where
  "connect w s args =
     (let conf = config s in
      case py_int (port conf) of
        Inl e \<Rightarrow> (Inl e, s)
      | Inr p \<Rightarrow>
          (let c = \<lparr>client_server = server conf, client_port = p,
                    default_institution = None\<rparr>;
               s1 = (log_call (NewClient (server conf) p) s)\<lparr>client := Some c\<rparr>;
               s2 = s1\<lparr>client := Some (c\<lparr>default_institution := institution conf\<rparr>)\<rparr>;
               s3 = log_call Connect s2
           in case connect_result w (calls s3) of
                Some d \<Rightarrow>
                  (Inr (PyBool False),
                   (print Stdout (''Unable to connect to server '' @ py_format (server conf)
                                   @ '' port '' @ py_format (port conf)) s3)
                     \<lparr>client := None\<rparr>)
              | None \<Rightarrow> (Inr (PyBool True), print Stdout ''Connect OK'' s3)))"

text \<open>
  \<^verbatim>\<open>login\<close>: \<^verbatim>\<open>self.client.login\<close> is looked up first (on \<^verbatim>\<open>None\<close>: \<^verbatim>\<open>AttributeError\<close>),
  then the three arguments are read from the configuration, then the call is made.
\<close>

definition login :: "collab \<Rightarrow> runner \<Rightarrow> string list \<Rightarrow> result" where
  "login w s args =
     (let conf = config s in
      case client s of
        None \<Rightarrow> (Inl (AttributeError ''login''), s)
      | Some c \<Rightarrow>
          (case location_code conf of
             Unset \<Rightarrow> (Inl (AttributeError ''location_code''), s)
           | Attr lc \<Rightarrow>
               (let s1 = log_call (Login (username conf) (password conf) lc) s in
                case login_result w (calls s1) of
                  Inl d \<Rightarrow> (Inl (ExternalError d), s1)
                | Inr ok \<Rightarrow>
                    if ok then (Inr (PyBool True), print Stdout ''Login OK'' s1)
                    else (Inr (PyBool False), print Stdout ''Login Failed'' s1))))"

definition status :: "collab \<Rightarrow> runner \<Rightarrow> string list \<Rightarrow> result" where
  "status w s args =
     (case client s of
        None \<Rightarrow> (Inl (AttributeError ''sc_status''), s)
      | Some c \<Rightarrow>
          (let s1 = log_call ScStatus s in
           case sc_status_result w (calls s1) of
             Inl d \<Rightarrow> (Inl (ExternalError d), s1)
           | Inr resp \<Rightarrow>
               (case online_status resp of
                  Inl d \<Rightarrow> (Inl (ExternalError d), s1)
                | Inr v \<Rightarrow>
                    if v = ''Y'' then (Inr (PyBool True), print Stdout ''Server is online'' s1)
                    else (Inr (PyBool False),
                          print Stdout (resp_repr resp)
                            (print Stdout ''Server is NOT online'' s1)))))"

text \<open>\<^verbatim>\<open>start\<close>: two nested \<^verbatim>\<open>if\<close>s on the truth value of what \<^verbatim>\<open>connect\<close> and \<^verbatim>\<open>login\<close>
  return; no \<^verbatim>\<open>return\<close> statement, so its value is \<^verbatim>\<open>None\<close>.\<close>

definition start :: "collab \<Rightarrow> runner \<Rightarrow> string list \<Rightarrow> result" where
  "start w s args =
     (case connect w s args of
        (Inl e, s1) \<Rightarrow> (Inl e, s1)
      | (Inr v1, s1) \<Rightarrow>
          if truthy v1 then
            (case login w s1 args of
               (Inl e, s2) \<Rightarrow> (Inl e, s2)
             | (Inr v2, s2) \<Rightarrow>
                 if truthy v2 then
                   (case status w s2 args of
                      (Inl e, s3) \<Rightarrow> (Inl e, s3)
                    | (Inr v3, s3) \<Rightarrow> (Inr PyNone, s3))
                 else (Inr PyNone, s2))
          else (Inr PyNone, s1))"

text \<open>\<^verbatim>\<open>patron_info\<close>: \<^verbatim>\<open>len(args) == 0\<close> is the empty list; otherwise \<^verbatim>\<open>args[0]\<close> is the
  head and the rest is never read.\<close>

definition patron_info :: "collab \<Rightarrow> runner \<Rightarrow> string list \<Rightarrow> result" where
  "patron_info w s args =
     (case args of
        [] \<Rightarrow> (Inr (PyBool False), print Stdout ''Patron barcode required'' s)
      | barcode # _ \<Rightarrow>
          (case client s of
             None \<Rightarrow> (Inl (AttributeError ''patron_info_request''), s)
           | Some c \<Rightarrow>
               (let s1 = log_call (PatronInfoRequest barcode) s in
                case patron_info_result w (calls s1) of
                  Inl d \<Rightarrow> (Inl (ExternalError d), s1)
                | Inr resp \<Rightarrow> (Inr (PyBool True), print Stdout (resp_repr resp) s1))))"

subsection \<open>Dispatch: \<^verbatim>\<open>run\<close>\<close>

fun call_handler :: "collab \<Rightarrow> handler \<Rightarrow> runner \<Rightarrow> string list \<Rightarrow> result" where
  "call_handler w H_help s args = help_cmd s args"
| "call_handler w H_echo s args = echo s args"
| "call_handler w H_exit s args = exit_cmd s args"
| "call_handler w H_connect s args = connect w s args"
| "call_handler w H_login s args = login w s args"
| "call_handler w H_status s args = status w s args"
| "call_handler w H_start s args = start w s args"
| "call_handler w H_patron_info s args = patron_info w s args"

text \<open>\<^verbatim>\<open>fn(*args)\<close>: Python binds the arguments to the parameters of \<open>fn\<close> before its body
  runs, and raises \<^verbatim>\<open>TypeError\<close> when they do not fit.\<close>

definition apply_handler :: "collab \<Rightarrow> handler \<Rightarrow> runner \<Rightarrow> string list \<Rightarrow> result" where
  "apply_handler w h s args =
     (case signature h of
        (required, varargs) \<Rightarrow>
          if length args < required \<or> (\<not> varargs \<and> required < length args)
          then (Inl TypeError_args, s)
          else call_handler w h s args)"

text \<open>The part of \<^verbatim>\<open>run\<close> after tokenizing: \<^verbatim>\<open>tokens[0]\<close> raises \<^verbatim>\<open>IndexError\<close> on the
  empty list.\<close>

definition dispatch :: "collab \<Rightarrow> runner \<Rightarrow> string list \<Rightarrow> result" where
  "dispatch w s tokens =
     (case tokens of
        [] \<Rightarrow> (Inl IndexError, s)
      | command # args \<Rightarrow>
          (case commands s command of
             None \<Rightarrow> (Inr PyNone, print Stderr (''Command not found: '' @ command) s)
           | Some e \<Rightarrow> apply_handler w (fn e) s args))"

definition run :: "collab \<Rightarrow> runner \<Rightarrow> string \<Rightarrow> result" where
  "run w s line =
     (case shlex_split line of
        Inl e \<Rightarrow> (Inl e, s)
      | Inr tokens \<Rightarrow> dispatch w s tokens)"

section \<open>Notions used to state the properties\<close>

text \<open>A line that is blank or holds only a comment: whitespace, then nothing or a
  \<^verbatim>\<open>#\<close> followed by text without a line break.\<close>

fun blank_or_comment :: "string \<Rightarrow> bool" where
  "blank_or_comment [] = True"
| "blank_or_comment (c # cs) =
     (if c \<in> whitespace then blank_or_comment cs
      else c \<in> commenters \<and> CHR 0x0A \<notin> set cs)"

text \<open>
  The specification's reading of \<^verbatim>\<open>start\<close>, written from its words and not from the
  source: \<^verbatim>\<open>connect AND login AND status\<close> with short-circuit evaluation. \<open>and_then r f\<close>
  is Python's \<^verbatim>\<open>a and b\<close>: an exception in \<open>a\<close> ends it, a false value of \<open>a\<close> is the
  result, and only a true value lets \<open>b\<close> run.
\<close>

definition and_then :: "result \<Rightarrow> (runner \<Rightarrow> result) \<Rightarrow> result" where
  "and_then r f =
     (case r of
        (Inl e, s) \<Rightarrow> (Inl e, s)
      | (Inr v, s) \<Rightarrow> if truthy v then f s else (Inr v, s))"

definition start_spec :: "collab \<Rightarrow> runner \<Rightarrow> string list \<Rightarrow> result" where
  "start_spec w s args =
     and_then (and_then (connect w s args) (\<lambda>s1. login w s1 args)) (\<lambda>s2. status w s2 args)"

fun is_login :: "call \<Rightarrow> bool" where
  "is_login (Login u p l) = True"
| "is_login c = False"

fun is_status :: "call \<Rightarrow> bool" where
  "is_status ScStatus = True"
| "is_status c = False"

subsection \<open>A configuration and three clients for the examples\<close>

definition example_config :: ConfigHandler where
  "example_config =
     ConfigHandler_init\<lparr>server := Some ''sip.example.org'', port := Some ''6001'',
       institution := Some ''example'', username := Some ''sip_user'',
       password := Some ''sip_pass'', location_code := Attr (Some ''main'')\<rparr>"

definition online_response :: response where
  "online_response = \<lparr>online_status = Inr ''Y'', resp_repr = ''98YYYYYY''\<rparr>"

definition patron_response :: response where
  "patron_response = \<lparr>online_status = Inl ''no such field'', resp_repr = ''64 patron''\<rparr>"

text \<open>A server that cannot be reached.\<close>

definition refusing :: collab where
  "refusing =
     \<lparr>connect_result = (\<lambda>log. Some ''ConnectionRefusedError''),
      login_result = (\<lambda>log. Inl ''not connected''),
      sc_status_result = (\<lambda>log. Inl ''not connected''),
      patron_info_result = (\<lambda>log. Inl ''not connected'')\<rparr>"

text \<open>A server that accepts everything and is online.\<close>

definition accepting :: collab where
  "accepting =
     \<lparr>connect_result = (\<lambda>log. None),
      login_result = (\<lambda>log. Inr True),
      sc_status_result = (\<lambda>log. Inr online_response),
      patron_info_result = (\<lambda>log. Inr patron_response)\<rparr>"

text \<open>A server that can be reached and rejects the login.\<close>

definition denying :: collab where
  "denying = accepting\<lparr>login_result := (\<lambda>log. Inr False)\<rparr>"

section \<open>Properties of the tokenizer\<close>

lemma readline_no_newline: "CHR 0x0A \<notin> set cs \<Longrightarrow> readline cs = []"
  by (induction cs) auto

lemma read_token_blank:
  "blank_or_comment cs \<Longrightarrow> read_token LWs [] False es cs = Inr (None, LEof, [])"
proof (induction cs)
  case Nil
  show ?case by (simp add: emit_def)
next
  case (Cons c cs)
  show ?case
  proof (cases "c \<in> whitespace")
    case True
    with Cons show ?thesis by simp
  next
    case False
    with Cons.prems have c: "c \<in> commenters" and nl: "CHR 0x0A \<notin> set cs" by auto
    from nl have "readline cs = []" by (rule readline_no_newline)
    with False c show ?thesis by (simp add: emit_def)
  qed
qed

lemma shlex_split_blank: "blank_or_comment line \<Longrightarrow> shlex_split line = Inr []"
  by (simp add: shlex_split_def shlex_tokens.simps [of LWs line] read_token_blank)

section \<open>Blank and comment-only lines\<close>

text \<open>
  C1. The claim is that a blank or comment-only line makes \<^verbatim>\<open>run\<close> do nothing and raise
  nothing. The source tokenizes such a line to the empty list and then reads
  \<^verbatim>\<open>tokens[0]\<close>: for every blank or comment-only line, \<^verbatim>\<open>run\<close> raises \<^verbatim>\<open>IndexError\<close>,
  with no handler called and nothing printed.
\<close>

theorem run_blank_line_raises:
  "blank_or_comment line \<Longrightarrow> run w s line = (Inl IndexError, s)"
  by (simp add: run_def dispatch_def shlex_split_blank)

theorem run_blank_line_raises_witness:
  "blank_or_comment ''  # nothing''
   \<and> run accepting (CommandRunner_init example_config) ''  # nothing''
       = (Inl IndexError, CommandRunner_init example_config)
   \<and> blank_or_comment ''''
   \<and> run accepting (CommandRunner_init example_config) ''''
       = (Inl IndexError, CommandRunner_init example_config)"
  using run_blank_line_raises [of "''  # nothing''" accepting "CommandRunner_init example_config"]
    run_blank_line_raises [of "''''" accepting "CommandRunner_init example_config"]
  by (simp add: whitespace_def commenters_def)

section \<open>Facts about the handlers\<close>

lemma init_fields:
  "client (CommandRunner_init c) = None"
  "config (CommandRunner_init c) = c"
  "printed (CommandRunner_init c) = []"
  "calls (CommandRunner_init c) = []"
  by (simp_all add: CommandRunner_init_def add_command_def)

lemma py_int_example: "py_int (Some ''6001'') = Inr 6001"
  by (simp add: py_int_def strip_def int_space_def unsigned_def is_digit_def digit_val_def
      int_max_str_digits_def)

text \<open>Three facts that fix what \<open>py_int\<close> accepts: a separator 0x1F before the digits is
  not stripped, the Latin-1 space 0xA0 is, and a run of zeros is accepted up to
  \<open>int_max_str_digits\<close> digits and refused beyond.\<close>

lemma py_int_separator_rejected: "py_int (Some (CHR 0x1F # ''6001'')) = Inl ValueError"
  by (simp add: py_int_def strip_def int_space_def unsigned_def is_digit_def)

lemma py_int_latin1_space_stripped: "py_int (Some (CHR 0xA0 # ''6001'')) = Inr 6001"
  by (simp add: py_int_def strip_def int_space_def unsigned_def is_digit_def digit_val_def
      int_max_str_digits_def)

lemma digits_zeros: "digits 0 False (replicate n CHR ''0'') = Some 0"
  by (induction n) (simp_all add: is_digit_def digit_val_def)

lemma py_int_digit_limit:
  "py_int (Some (CHR ''0'' # replicate n CHR ''0''))
     = (if int_max_str_digits < Suc n then Inl ValueError else Inr 0)"
proof -
  let ?s = "CHR ''0'' # replicate n CHR ''0''"
  have z: "\<not> int_space CHR ''0''" "is_digit CHR ''0''"
    by (simp_all add: int_space_def is_digit_def)
  have s: "strip ?s = ?s"
    using z by (simp add: strip_def replicate_append_same)
  have u: "unsigned ?s = Some 0"
    using digits_zeros [of n] z by (simp add: unsigned_def digit_val_def)
  have l: "length (filter is_digit ?s) = Suc n"
    using z by simp
  show ?thesis
    by (simp add: py_int_def s u l del: filter.simps)
qed

lemma connect_port_invalid:
  "py_int (port (config s)) = Inl e \<Longrightarrow> connect w s args = (Inl e, s)"
  by (simp add: connect_def)

lemma connect_refused:
  assumes "py_int (port (config s)) = Inr p"
    and "connect_result w (calls s @ [NewClient (server (config s)) p, Connect]) = Some d"
  shows "connect w s args =
     (Inr (PyBool False),
      s\<lparr>client := None,
        calls := calls s @ [NewClient (server (config s)) p, Connect],
        printed := printed s @
          [(Stdout, ''Unable to connect to server '' @ py_format (server (config s))
                    @ '' port '' @ py_format (port (config s)))]\<rparr>)"
  using assms by (simp add: connect_def log_call_def print_def Let_def)

lemma connect_accepted:
  assumes "py_int (port (config s)) = Inr p"
    and "connect_result w (calls s @ [NewClient (server (config s)) p, Connect]) = None"
  shows "connect w s args =
     (Inr (PyBool True),
      s\<lparr>client := Some \<lparr>client_server = server (config s), client_port = p,
                         default_institution = institution (config s)\<rparr>,
        calls := calls s @ [NewClient (server (config s)) p, Connect],
        printed := printed s @ [(Stdout, ''Connect OK'')]\<rparr>)"
  using assms by (simp add: connect_def log_call_def print_def Let_def)

lemma connect_False_client:
  "fst (connect w s args) = Inr (PyBool False) \<Longrightarrow> client (snd (connect w s args)) = None"
  by (auto simp: connect_def log_call_def print_def Let_def split: sum.splits option.splits)

lemma connect_example_refused:
  "fst (connect refusing (CommandRunner_init example_config) []) = Inr (PyBool False)"
  by (simp add: connect_def py_int_example example_config_def init_fields refusing_def
      log_call_def print_def Let_def)

section \<open>\<^verbatim>\<open>login\<close> without a session handle\<close>

text \<open>
  C2, as the claim states it: with an empty session handle, \<^verbatim>\<open>login\<close> reports a failure
  of its own and returns failure instead of faulting. It does not: after a refused
  \<^verbatim>\<open>connect\<close> the handle is empty and \<^verbatim>\<open>login\<close> raises \<^verbatim>\<open>AttributeError\<close>.
\<close>

theorem login_empty_handle_counterexample:
  "client (snd (connect refusing (CommandRunner_init example_config) [])) = None
   \<and> login refusing (snd (connect refusing (CommandRunner_init example_config) [])) []
       = (Inl (AttributeError ''login''),
          snd (connect refusing (CommandRunner_init example_config) []))"
  by (simp add: login_def connect_def py_int_example example_config_def init_fields
      refusing_def log_call_def print_def Let_def)

lemma shlex_split_login: "shlex_split ''login'' = Inr [''login'']"
  by code_simp

lemma login_registered:
  "commands (CommandRunner_init c) ''login''
     = Some \<lparr>fn = H_login, desc = ''Send a 93 Login request.''\<rparr>"
  by (simp add: CommandRunner_init_def add_command_def)

text \<open>
  C2, amended: whenever the session handle is empty, and in particular after a
  \<^verbatim>\<open>connect\<close> that returned failure, \<^verbatim>\<open>login\<close> raises \<^verbatim>\<open>AttributeError\<close> (the lookup of
  \<^verbatim>\<open>login\<close> on \<^verbatim>\<open>None\<close>); it prints nothing, calls nothing on the client and leaves the
  dispatcher as it was. The exception also leaves \<^verbatim>\<open>run\<close>: the line \<^verbatim>\<open>login\<close>, given to a
  dispatcher whose registry has the \<^verbatim>\<open>login\<close> handler under that name, raises it.
\<close>

theorem login_empty_handle_faults:
  "(client s = None \<longrightarrow> login w s args = (Inl (AttributeError ''login''), s))
   \<and> (fst (connect w s args) = Inr (PyBool False) \<longrightarrow>
        login w (snd (connect w s args)) args'
          = (Inl (AttributeError ''login''), snd (connect w s args)))
   \<and> (client s = None \<and> commands s ''login'' = Some e \<and> fn e = H_login \<longrightarrow>
        run w s ''login'' = (Inl (AttributeError ''login''), s))"
proof -
  have a: "login w t xs = (Inl (AttributeError ''login''), t)" if "client t = None" for t xs
    using that by (simp add: login_def)
  have r: "run w s ''login'' = login w s []" if "commands s ''login'' = Some e" "fn e = H_login"
    using that by (simp add: run_def shlex_split_login dispatch_def apply_handler_def)
  show ?thesis using a r connect_False_client by metis
qed

theorem login_empty_handle_faults_witness:
  "client (CommandRunner_init example_config) = None
   \<and> login accepting (CommandRunner_init example_config) []
       = (Inl (AttributeError ''login''), CommandRunner_init example_config)
   \<and> fst (connect refusing (CommandRunner_init example_config) []) = Inr (PyBool False)
   \<and> login refusing (snd (connect refusing (CommandRunner_init example_config) [])) []
       = (Inl (AttributeError ''login''),
          snd (connect refusing (CommandRunner_init example_config) []))
   \<and> commands (CommandRunner_init example_config) ''login''
       = Some \<lparr>fn = H_login, desc = ''Send a 93 Login request.''\<rparr>
   \<and> run accepting (CommandRunner_init example_config) ''login''
       = (Inl (AttributeError ''login''), CommandRunner_init example_config)"
proof -
  let ?I = "CommandRunner_init example_config"
  let ?e = "\<lparr>fn = H_login, desc = ''Send a 93 Login request.''\<rparr>"
  have c: "client ?I = None"
    by (simp add: init_fields)
  have g: "commands ?I ''login'' = Some ?e"
    by (rule login_registered)
  have f: "fn ?e = H_login"
    by simp
  from c g f connect_example_refused
    login_empty_handle_faults [of ?I accepting "[]" "[]" ?e]
    login_empty_handle_faults [of ?I refusing "[]" "[]" ?e]
  show ?thesis by blast
qed

section \<open>Failures of \<^verbatim>\<open>connect\<close>\<close>

text \<open>
  C3, as the claim states it: for every configuration, any failure in \<^verbatim>\<open>connect\<close> prints
  the message, empties the session handle and returns failure, and no exception leaves
  the handler. With the configuration that \<^verbatim>\<open>ConfigHandler.__init__\<close> builds (no port),
  \<^verbatim>\<open>int(conf.port)\<close> raises \<^verbatim>\<open>TypeError\<close> before the \<^verbatim>\<open>try\<close>: the exception leaves the
  handler and nothing is printed.
\<close>

theorem connect_failure_counterexample:
  "connect refusing (CommandRunner_init ConfigHandler_init) []
     = (Inl TypeError_int, CommandRunner_init ConfigHandler_init)"
  by (simp add: connect_def py_int_def ConfigHandler_init_def init_fields)

text \<open>
  C3, amended: for every configuration whose port \<^verbatim>\<open>int\<close> accepts (\<open>py_int\<close> returns a
  number, so the handler reaches its \<^verbatim>\<open>try\<close>), any exception raised
  by the client's \<^verbatim>\<open>connect()\<close> makes the handler print
  \<^verbatim>\<open>Unable to connect to server <server> port <port>\<close>, empty the session handle and
  return \<^verbatim>\<open>False\<close>; no exception leaves the handler.
\<close>

theorem connect_failure_contained:
  assumes "py_int (port (config s)) = Inr p"
    and "connect_result w (calls s @ [NewClient (server (config s)) p, Connect]) = Some d"
  shows "connect w s args =
     (Inr (PyBool False),
      s\<lparr>client := None,
        calls := calls s @ [NewClient (server (config s)) p, Connect],
        printed := printed s @
          [(Stdout, ''Unable to connect to server '' @ py_format (server (config s))
                    @ '' port '' @ py_format (port (config s)))]\<rparr>)"
  using assms by (rule connect_refused)

theorem connect_failure_contained_witness:
  "py_int (port (config (CommandRunner_init example_config))) = Inr 6001
   \<and> connect_result refusing (calls (CommandRunner_init example_config)
        @ [NewClient (server (config (CommandRunner_init example_config))) 6001, Connect])
       = Some ''ConnectionRefusedError''
   \<and> connect refusing (CommandRunner_init example_config) []
       = (Inr (PyBool False),
          (CommandRunner_init example_config)
            \<lparr>client := None,
             calls := [NewClient (Some ''sip.example.org'') 6001, Connect],
             printed := [(Stdout, ''Unable to connect to server sip.example.org port 6001'')]\<rparr>)"
proof -
  have p: "py_int (port (config (CommandRunner_init example_config))) = Inr 6001"
    by (simp add: init_fields example_config_def py_int_example)
  have r: "connect_result refusing (calls (CommandRunner_init example_config)
        @ [NewClient (server (config (CommandRunner_init example_config))) 6001, Connect])
       = Some ''ConnectionRefusedError''"
    by (simp add: refusing_def)
  have "server example_config = Some ''sip.example.org''" "port example_config = Some ''6001''"
    by (simp_all add: example_config_def)
  with connect_failure_contained [OF p r, of "[]"] p r show ?thesis
    by (simp add: init_fields)
qed

section \<open>\<^verbatim>\<open>start\<close> as a short-circuit sequence\<close>

lemma connect_calls_login:
  "filter is_login (calls (snd (connect w s args))) = filter is_login (calls s)"
  by (auto simp: connect_def log_call_def print_def Let_def split: sum.splits option.splits)

lemma connect_calls_status:
  "filter is_status (calls (snd (connect w s args))) = filter is_status (calls s)"
  by (auto simp: connect_def log_call_def print_def Let_def split: sum.splits option.splits)

lemma login_calls_status:
  "filter is_status (calls (snd (login w s args))) = filter is_status (calls s)"
  by (auto simp: login_def log_call_def print_def Let_def
      split: sum.splits option.splits attribute.splits)

lemma start_connect_raises:
  "fst (connect w s args) = Inl e \<Longrightarrow> start w s args = connect w s args"
  by (cases "connect w s args") (simp add: start_def)

lemma start_connect_false:
  "fst (connect w s args) = Inr v \<Longrightarrow> \<not> truthy v \<Longrightarrow>
   start w s args = (Inr PyNone, snd (connect w s args))"
  by (cases "connect w s args") (simp add: start_def)

lemma start_login_false:
  "fst (connect w s args) = Inr v \<Longrightarrow> truthy v \<Longrightarrow>
   fst (login w (snd (connect w s args)) args) = Inr v' \<Longrightarrow> \<not> truthy v' \<Longrightarrow>
   start w s args = (Inr PyNone, snd (login w (snd (connect w s args)) args))"
  by (cases "connect w s args"; cases "login w (snd (connect w s args)) args")
     (simp add: start_def)

lemma start_spec_state: "snd (start w s args) = snd (start_spec w s args)"
  by (simp add: start_def start_spec_def and_then_def split: prod.splits sum.splits)

lemma start_spec_raises:
  "(fst (start w s args) = Inl e) = (fst (start_spec w s args) = Inl e)"
  by (simp add: start_def start_spec_def and_then_def split: prod.splits sum.splits)

lemma start_value: "fst (start w s args) = Inr v \<Longrightarrow> v = PyNone"
  by (simp add: start_def split: prod.splits sum.splits if_splits)

text \<open>
  C4. \<^verbatim>\<open>start\<close> does what \<^verbatim>\<open>connect AND login AND status\<close> does under short-circuit
  evaluation: it leaves the same dispatcher, printed lines and client calls, and raises
  exactly when that sequence raises. When \<^verbatim>\<open>connect\<close> returns failure, \<^verbatim>\<open>start\<close> is
  \<^verbatim>\<open>connect\<close> alone: the log gains no login call and no status call. When \<^verbatim>\<open>connect\<close>
  succeeds and \<^verbatim>\<open>login\<close> returns failure, \<^verbatim>\<open>start\<close> ends after \<^verbatim>\<open>login\<close>: the log gains no
  status call. (\<^verbatim>\<open>start\<close> itself returns \<^verbatim>\<open>None\<close>: lemma \<open>start_value\<close>.)
\<close>

theorem start_short_circuit:
  "snd (start w s args) = snd (start_spec w s args)
   \<and> (\<forall>e. (fst (start w s args) = Inl e) = (fst (start_spec w s args) = Inl e))
   \<and> (fst (connect w s args) = Inr (PyBool False) \<longrightarrow>
        start w s args = (Inr PyNone, snd (connect w s args))
        \<and> filter is_login (calls (snd (start w s args))) = filter is_login (calls s)
        \<and> filter is_status (calls (snd (start w s args))) = filter is_status (calls s))
   \<and> (fst (connect w s args) = Inr (PyBool True)
        \<and> fst (login w (snd (connect w s args)) args) = Inr (PyBool False) \<longrightarrow>
        start w s args = (Inr PyNone, snd (login w (snd (connect w s args)) args))
        \<and> filter is_status (calls (snd (start w s args))) = filter is_status (calls s))"
proof (intro conjI allI impI)
  show "snd (start w s args) = snd (start_spec w s args)" by (rule start_spec_state)
next
  fix e show "(fst (start w s args) = Inl e) = (fst (start_spec w s args) = Inl e)"
    by (rule start_spec_raises)
next
  assume f: "fst (connect w s args) = Inr (PyBool False)"
  then show st: "start w s args = (Inr PyNone, snd (connect w s args))"
    by (simp add: start_connect_false)
  show "filter is_login (calls (snd (start w s args))) = filter is_login (calls s)"
    by (simp add: st connect_calls_login)
  show "filter is_status (calls (snd (start w s args))) = filter is_status (calls s)"
    by (simp add: st connect_calls_status)
next
  assume a: "fst (connect w s args) = Inr (PyBool True)
     \<and> fst (login w (snd (connect w s args)) args) = Inr (PyBool False)"
  then show st: "start w s args = (Inr PyNone, snd (login w (snd (connect w s args)) args))"
    by (simp add: start_login_false)
  show "filter is_status (calls (snd (start w s args))) = filter is_status (calls s)"
    by (simp add: st login_calls_status connect_calls_status)
qed

lemma connect_example_denying:
  "connect denying (CommandRunner_init example_config) [] =
     (Inr (PyBool True),
      (CommandRunner_init example_config)
        \<lparr>client := Some \<lparr>client_server = Some ''sip.example.org'', client_port = 6001,
                           default_institution = Some ''example''\<rparr>,
         calls := [NewClient (Some ''sip.example.org'') 6001, Connect],
         printed := [(Stdout, ''Connect OK'')]\<rparr>)"
  by (simp add: connect_def py_int_example example_config_def init_fields denying_def
      accepting_def log_call_def print_def Let_def ConfigHandler_init_def)

lemma login_example_denying:
  "fst (login denying (snd (connect denying (CommandRunner_init example_config) [])) [])
     = Inr (PyBool False)"
  unfolding connect_example_denying
  by (simp add: login_def init_fields example_config_def
      denying_def accepting_def log_call_def print_def Let_def ConfigHandler_init_def)

theorem start_short_circuit_witness:
  "fst (connect refusing (CommandRunner_init example_config) []) = Inr (PyBool False)
   \<and> start refusing (CommandRunner_init example_config) []
       = (Inr PyNone, snd (connect refusing (CommandRunner_init example_config) []))
   \<and> filter is_login (calls (snd (start refusing (CommandRunner_init example_config) []))) = []
   \<and> filter is_status (calls (snd (start refusing (CommandRunner_init example_config) []))) = []
   \<and> fst (connect denying (CommandRunner_init example_config) []) = Inr (PyBool True)
   \<and> fst (login denying (snd (connect denying (CommandRunner_init example_config) [])) [])
       = Inr (PyBool False)
   \<and> filter is_status (calls (snd (start denying (CommandRunner_init example_config) []))) = []"
proof -
  let ?I = "CommandRunner_init example_config"
  have d: "fst (connect denying ?I []) = Inr (PyBool True)"
    by (simp add: connect_example_denying)
  have e: "filter is_login (calls ?I) = []" "filter is_status (calls ?I) = []"
    by (simp_all add: init_fields)
  from start_short_circuit [of refusing ?I "[]"] connect_example_refused
  have a: "start refusing ?I [] = (Inr PyNone, snd (connect refusing ?I []))
      \<and> filter is_login (calls (snd (start refusing ?I []))) = filter is_login (calls ?I)
      \<and> filter is_status (calls (snd (start refusing ?I []))) = filter is_status (calls ?I)"
    by blast
  from start_short_circuit [of denying ?I "[]"] d login_example_denying
  have b: "filter is_status (calls (snd (start denying ?I []))) = filter is_status (calls ?I)"
    by blast
  from a b d e connect_example_refused login_example_denying show ?thesis
    by metis
qed

section \<open>Unknown commands\<close>





section \<open>\<^verbatim>\<open>help\<close>\<close>

lemma shlex_split_help: "shlex_split ''help'' = Inr [''help'']"
  by code_simp

text \<open>
  C6. The registry built by \<^verbatim>\<open>__init__\<close> lists the commands in the order help, echo,
  exit, quit, connect, login, status, start, patron-info. In every state of a dispatcher
  built by \<^verbatim>\<open>__init__\<close> (whatever its session handle, printed lines and call log),
  \<^verbatim>\<open>help\<close> prints the heading and then one line per command with its description,
  in that order, and returns \<^verbatim>\<open>True\<close>; the line \<^verbatim>\<open>help\<close> given to \<^verbatim>\<open>run\<close> reaches it.
\<close>

theorem help_lists_registry_in_order:
  "commands_sorted (CommandRunner_init conf)
     = [''help'', ''echo'', ''exit'', ''quit'', ''connect'', ''login'', ''status'', ''start'',
        ''patron-info'']
   \<and> help_cmd ((CommandRunner_init conf)\<lparr>client := cl, printed := out, calls := log\<rparr>) args
     = (Inr (PyBool True),
        (CommandRunner_init conf)
          \<lparr>client := cl,
           printed := out @
             [(Stdout, ''Commands:''),
              (Stdout, ''  help - Display help message''),
              (Stdout, ''  echo - Echo command with arguments''),
              (Stdout, ''  exit - Exit shell''),
              (Stdout, ''  quit - Exit shell''),
              (Stdout, ''  connect - Open a network connection to the SIP server.''),
              (Stdout, ''  login - Send a 93 Login request.''),
              (Stdout, ''  status - Send a 99 SC Status request message.''),
              (Stdout, ''  start - Shortcut for a combination of \"connect\", \"login\", and \"status\" commands.''),
              (Stdout, ''  patron-info - Send a 63 Patron Information Request message.'')],
           calls := log\<rparr>)
   \<and> run w ((CommandRunner_init conf)\<lparr>client := cl, printed := out, calls := log\<rparr>) ''help''
     = help_cmd ((CommandRunner_init conf)\<lparr>client := cl, printed := out, calls := log\<rparr>) []"
proof (intro conjI)
  show "commands_sorted (CommandRunner_init conf)
     = [''help'', ''echo'', ''exit'', ''quit'', ''connect'', ''login'', ''status'', ''start'',
        ''patron-info'']"
    by (simp add: CommandRunner_init_def add_command_def)
  show "help_cmd ((CommandRunner_init conf)\<lparr>client := cl, printed := out, calls := log\<rparr>) args
     = (Inr (PyBool True),
        (CommandRunner_init conf)
          \<lparr>client := cl,
           printed := out @
             [(Stdout, ''Commands:''),
              (Stdout, ''  help - Display help message''),
              (Stdout, ''  echo - Echo command with arguments''),
              (Stdout, ''  exit - Exit shell''),
              (Stdout, ''  quit - Exit shell''),
              (Stdout, ''  connect - Open a network connection to the SIP server.''),
              (Stdout, ''  login - Send a 93 Login request.''),
              (Stdout, ''  status - Send a 99 SC Status request message.''),
              (Stdout, ''  start - Shortcut for a combination of \"connect\", \"login\", and \"status\" commands.''),
              (Stdout, ''  patron-info - Send a 63 Patron Information Request message.'')],
           calls := log\<rparr>)"
    by (simp add: help_cmd_def CommandRunner_init_def add_command_def print_def)
  show "run w ((CommandRunner_init conf)\<lparr>client := cl, printed := out, calls := log\<rparr>) ''help''
     = help_cmd ((CommandRunner_init conf)\<lparr>client := cl, printed := out, calls := log\<rparr>) []"
    by (simp add: run_def shlex_split_help dispatch_def apply_handler_def
        CommandRunner_init_def add_command_def)
qed

section \<open>\<^verbatim>\<open>patron-info\<close>\<close>

text \<open>
  C7. Without arguments \<^verbatim>\<open>patron_info\<close> prints \<^verbatim>\<open>Patron barcode required\<close> and returns
  \<^verbatim>\<open>False\<close>; the call log is the one before, so the client was not called. With a
  barcode, a session handle and a client that answers the request with a response, it
  makes that one request with the barcode, prints the response's \<^verbatim>\<open>repr\<close> and returns
  \<^verbatim>\<open>True\<close>, whatever the response holds.
\<close>

theorem patron_info_contract:
  "patron_info w s []
     = (Inr (PyBool False), s\<lparr>printed := printed s @ [(Stdout, ''Patron barcode required'')]\<rparr>)
   \<and> (client s = Some c \<and> patron_info_result w (calls s @ [PatronInfoRequest barcode]) = Inr resp
        \<longrightarrow> patron_info w s (barcode # rest)
              = (Inr (PyBool True),
                 s\<lparr>calls := calls s @ [PatronInfoRequest barcode],
                   printed := printed s @ [(Stdout, resp_repr resp)]\<rparr>))"
  by (simp add: patron_info_def print_def log_call_def)

theorem patron_info_contract_witness:
  "patron_info accepting (CommandRunner_init example_config) []
     = (Inr (PyBool False),
        (CommandRunner_init example_config)\<lparr>printed := [(Stdout, ''Patron barcode required'')]\<rparr>)
   \<and> client ((CommandRunner_init example_config)
        \<lparr>client := Some \<lparr>client_server = None, client_port = 6001,
                           default_institution = None\<rparr>\<rparr>)
       = Some \<lparr>client_server = None, client_port = 6001, default_institution = None\<rparr>
   \<and> patron_info_result accepting [PatronInfoRequest ''21000123''] = Inr patron_response
   \<and> patron_info accepting ((CommandRunner_init example_config)
        \<lparr>client := Some \<lparr>client_server = None, client_port = 6001,
                           default_institution = None\<rparr>\<rparr>) [''21000123'']
       = (Inr (PyBool True),
          (CommandRunner_init example_config)
            \<lparr>client := Some \<lparr>client_server = None, client_port = 6001,
                               default_institution = None\<rparr>,
             calls := [PatronInfoRequest ''21000123''],
             printed := [(Stdout, ''64 patron'')]\<rparr>)"
proof -
  let ?c = "\<lparr>client_server = None, client_port = 6001, default_institution = None\<rparr>"
  have r: "patron_info_result accepting [PatronInfoRequest ''21000123''] = Inr patron_response"
    by (simp add: accepting_def)
  have p: "resp_repr patron_response = ''64 patron''"
    by (simp add: patron_response_def)
  from r p
    patron_info_contract [of accepting "CommandRunner_init example_config"]
    patron_info_contract [of accepting "(CommandRunner_init example_config)\<lparr>client := Some ?c\<rparr>"
      ?c "''21000123''" patron_response "[]"]
  show ?thesis by (simp add: init_fields)
qed

section \<open>The configuration loader\<close>

text \<open>
  C8. The claim is that every field the file does not give is left empty, also when the
  section is absent. When the file has no \<^verbatim>\<open>client\<close> section, \<^verbatim>\<open>setup\<close> returns early and
  the object is as \<^verbatim>\<open>__init__\<close> left it: \<^verbatim>\<open>__init__\<close> assigns \<^verbatim>\<open>None\<close> to five fields and
  never assigns \<^verbatim>\<open>location_code\<close>, so that attribute does not exist rather than being
  empty. (With a session handle, \<^verbatim>\<open>login\<close> then raises \<^verbatim>\<open>AttributeError\<close>: lemma
  \<open>login_location_code_unset\<close>. When the section is present every field is what the
  section gives, \<^verbatim>\<open>None\<close> for a missing option: lemma \<open>setup_with_client_section\<close>.)
\<close>

theorem setup_without_client_section:
  assumes "fileConfig_result fs (configfile ConfigHandler_init) = None"
    and "parser_read fs (configfile ConfigHandler_init) = Inr sections"
    and "sections ''client'' = None"
  shows "setup_config fs ConfigHandler_init = Inr ConfigHandler_init
         \<and> location_code ConfigHandler_init = Unset"
  using assms by (simp add: setup_config_def) (simp add: ConfigHandler_init_def)

theorem setup_without_client_section_witness:
  "setup_config \<lparr>fileConfig_result = (\<lambda>path. None), parser_read = (\<lambda>path. Inr Map.empty)\<rparr>
     ConfigHandler_init = Inr ConfigHandler_init
   \<and> location_code ConfigHandler_init = Unset"
  using setup_without_client_section
    [of "\<lparr>fileConfig_result = (\<lambda>path. None), parser_read = (\<lambda>path. Inr Map.empty)\<rparr>" Map.empty]
  by simp

lemma setup_with_client_section:
  assumes "fileConfig_result fs (configfile self) = None"
    and "parser_read fs (configfile self) = Inr sections"
    and "sections ''client'' = Some (\<lambda>name. Inr (given name))"
  shows "setup_config fs self =
     Inr (self\<lparr>server := given ''server'', port := given ''port'',
               institution := given ''institution'', username := given ''username'',
               password := given ''password'',
               location_code := Attr (given ''location_code'')\<rparr>)"
  using assms by (simp add: setup_config_def assign_option_def)

lemma setup_interpolation_error:
  assumes "fileConfig_result fs (configfile self) = None"
    and "parser_read fs (configfile self) = Inr sections"
    and "sections ''client'' = Some sect"
    and "sect ''server'' = Inr v1" and "sect ''port'' = Inr v2"
    and "sect ''institution'' = Inr v3" and "sect ''username'' = Inr v4"
    and "sect ''password'' = Inl d"
  shows "setup_config fs self =
     Inl (ExternalError d,
          self\<lparr>server := v1, port := v2, institution := v3, username := v4\<rparr>)"
  using assms by (simp add: setup_config_def assign_option_def)

lemma login_location_code_unset:
  "client s = Some c \<Longrightarrow> location_code (config s) = Unset \<Longrightarrow>
   login w s args = (Inl (AttributeError ''location_code''), s)"
  by (simp add: login_def)

section \<open>\<^verbatim>\<open>echo\<close>\<close>

lemma shlex_split_echo: "shlex_split ''echo a b c'' = Inr [''echo'', ''a'', ''b'', ''c'']"
  by code_simp

lemma py_str_list_abc:
  "py_str_list [''a'', ''b'', ''c'']
     = ''['' @ [CHR 0x27] @ ''a'' @ [CHR 0x27] @ '', '' @ [CHR 0x27] @ ''b'' @ [CHR 0x27]
       @ '', '' @ [CHR 0x27] @ ''c'' @ [CHR 0x27] @ '']''"
  by (simp add: py_str_list_def py_repr_def repr_char_def printable_def Let_def)

lemma dispatch_echo:
  "dispatch w ((CommandRunner_init conf)\<lparr>client := cl, printed := out, calls := log\<rparr>)
     (''echo'' # args)
   = echo ((CommandRunner_init conf)\<lparr>client := cl, printed := out, calls := log\<rparr>) args"
  by (simp add: dispatch_def apply_handler_def CommandRunner_init_def add_command_def)

text \<open>
  C9. For every argument list, \<^verbatim>\<open>echo\<close> prints \<^verbatim>\<open>echo args=\<close> followed by the list of the
  arguments exactly as received, and it always succeeds: it has no failure path, so it
  raises nothing and never returns the failure indicator \<^verbatim>\<open>False\<close> (it has no \<^verbatim>\<open>return\<close>
  statement; the value of the call is \<^verbatim>\<open>None\<close>). A dispatcher built by \<^verbatim>\<open>__init__\<close> passes
  every token after \<^verbatim>\<open>echo\<close> to it unchanged, and for the line \<^verbatim>\<open>echo a b c\<close> the printed
  text is \<^verbatim>\<open>echo args=['a', 'b', 'c']\<close>.
\<close>

theorem echo_prints_arguments:
  "echo s args
     = (Inr PyNone, s\<lparr>printed := printed s @ [(Stdout, ''echo args='' @ py_str_list args)]\<rparr>)
   \<and> (\<forall>e. fst (echo s args) \<noteq> Inl e) \<and> fst (echo s args) \<noteq> Inr (PyBool False)
   \<and> dispatch w ((CommandRunner_init conf)\<lparr>client := cl, printed := out, calls := log\<rparr>)
        (''echo'' # args)
     = echo ((CommandRunner_init conf)\<lparr>client := cl, printed := out, calls := log\<rparr>) args
   \<and> run w ((CommandRunner_init conf)\<lparr>client := cl, printed := out, calls := log\<rparr>)
        ''echo a b c''
     = (Inr PyNone,
        (CommandRunner_init conf)
          \<lparr>client := cl,
           printed := out @
             [(Stdout, ''echo args=['' @ [CHR 0x27] @ ''a'' @ [CHR 0x27] @ '', ''
                       @ [CHR 0x27] @ ''b'' @ [CHR 0x27] @ '', '' @ [CHR 0x27] @ ''c''
                       @ [CHR 0x27] @ '']'')],
           calls := log\<rparr>)"
proof (intro conjI)
  show "echo s args
     = (Inr PyNone, s\<lparr>printed := printed s @ [(Stdout, ''echo args='' @ py_str_list args)]\<rparr>)"
    by (simp add: echo_def print_def)
  show "\<forall>e. fst (echo s args) \<noteq> Inl e"
    by (simp add: echo_def)
  show "fst (echo s args) \<noteq> Inr (PyBool False)"
    by (simp add: echo_def)
  show "dispatch w ((CommandRunner_init conf)\<lparr>client := cl, printed := out, calls := log\<rparr>)
        (''echo'' # args)
     = echo ((CommandRunner_init conf)\<lparr>client := cl, printed := out, calls := log\<rparr>) args"
    by (rule dispatch_echo)
  show "run w ((CommandRunner_init conf)\<lparr>client := cl, printed := out, calls := log\<rparr>)
        ''echo a b c''
     = (Inr PyNone,
        (CommandRunner_init conf)
          \<lparr>client := cl,
           printed := out @
             [(Stdout, ''echo args=['' @ [CHR 0x27] @ ''a'' @ [CHR 0x27] @ '', ''
                       @ [CHR 0x27] @ ''b'' @ [CHR 0x27] @ '', '' @ [CHR 0x27] @ ''c''
                       @ [CHR 0x27] @ '']'')],
           calls := log\<rparr>)"
    unfolding run_def shlex_split_echo sum.case dispatch_echo
    by (simp add: echo_def print_def py_str_list_abc)
qed

section \<open>Arity of the handlers\<close>

lemma help_loop_no_arity: "fst (help_loop s xs) \<noteq> Some TypeError_args"
  by (induction xs arbitrary: s) (auto split: option.splits)

lemma help_no_arity: "fst (help_cmd s args) \<noteq> Inl TypeError_args"
  using help_loop_no_arity [of "print Stdout ''Commands:'' s" "commands_sorted s"]
  by (auto simp: help_cmd_def split: prod.splits option.splits)

lemma py_int_no_arity: "py_int x \<noteq> Inl TypeError_args"
  by (auto simp: py_int_def Let_def split: option.splits prod.splits)

lemma connect_no_arity: "fst (connect w s args) \<noteq> Inl TypeError_args"
  using py_int_no_arity [of "port (config s)"]
  by (auto simp: connect_def Let_def split: sum.splits option.splits)

lemma login_no_arity: "fst (login w s args) \<noteq> Inl TypeError_args"
  by (auto simp: login_def Let_def split: sum.splits option.splits attribute.splits)

lemma status_no_arity: "fst (status w s args) \<noteq> Inl TypeError_args"
  by (auto simp: status_def Let_def split: sum.splits option.splits)

lemma patron_info_no_arity: "fst (patron_info w s args) \<noteq> Inl TypeError_args"
  by (auto simp: patron_info_def Let_def split: sum.splits option.splits list.splits)

lemma start_no_arity: "fst (start w s args) \<noteq> Inl TypeError_args"
proof
  assume a: "fst (start w s args) = Inl TypeError_args"
  obtain r1 s1 where c: "connect w s args = (r1, s1)" by (cases "connect w s args")
  obtain r2 s2 where l: "login w s1 args = (r2, s2)" by (cases "login w s1 args")
  obtain r3 s3 where t: "status w s2 args = (r3, s3)" by (cases "status w s2 args")
  from connect_no_arity [of w s args] c have 1: "r1 \<noteq> Inl TypeError_args" by simp
  from login_no_arity [of w s1 args] l have 2: "r2 \<noteq> Inl TypeError_args" by simp
  from status_no_arity [of w s2 args] t have 3: "r3 \<noteq> Inl TypeError_args" by simp
  from a c l t 1 2 3 show False
    by (auto simp: start_def split: sum.splits if_splits)
qed

lemma call_handler_no_arity: "fst (call_handler w h s args) \<noteq> Inl TypeError_args"
  by (cases h)
     (simp_all add: help_no_arity connect_no_arity login_no_arity status_no_arity
        start_no_arity patron_info_no_arity echo_def exit_cmd_def)

lemma apply_handler_binds: "apply_handler w h s args = call_handler w h s args"
  by (cases h) (simp_all add: apply_handler_def)

text \<open>
  C10. Every handler is declared with \<^verbatim>\<open>*args\<close> and no required parameter, so for every
  command that has an entry in the registry and every list of argument tokens, binding
  the arguments succeeds, the handler's body runs on all of them, and the outcome is
  never the \<^verbatim>\<open>TypeError\<close> of a call with the wrong number of arguments. \<^verbatim>\<open>patron_info\<close>
  with a barcode and further tokens does exactly what it does with the barcode alone.
\<close>

theorem dispatch_never_arity_error:
  "(commands s cmd = Some e \<longrightarrow>
      dispatch w s (cmd # args) = call_handler w (fn e) s args
      \<and> fst (dispatch w s (cmd # args)) \<noteq> Inl TypeError_args)
   \<and> patron_info w s (barcode # rest) = patron_info w s [barcode]"
  by (simp add: dispatch_def apply_handler_binds call_handler_no_arity patron_info_def)

lemma patron_info_registered:
  "commands (CommandRunner_init c) ''patron-info''
     = Some \<lparr>fn = H_patron_info, desc = ''Send a 63 Patron Information Request message.''\<rparr>"
  by (simp add: CommandRunner_init_def add_command_def)

theorem dispatch_never_arity_error_witness:
  "commands (CommandRunner_init example_config) ''patron-info''
     = Some \<lparr>fn = H_patron_info, desc = ''Send a 63 Patron Information Request message.''\<rparr>
   \<and> dispatch accepting (CommandRunner_init example_config) [''patron-info'', ''1'', ''2'', ''3'']
     = patron_info accepting (CommandRunner_init example_config) [''1'', ''2'', ''3'']
   \<and> fst (dispatch accepting (CommandRunner_init example_config)
            [''patron-info'', ''1'', ''2'', ''3'']) \<noteq> Inl TypeError_args
   \<and> patron_info accepting (CommandRunner_init example_config) [''1'', ''2'', ''3'']
     = patron_info accepting (CommandRunner_init example_config) [''1'']"
proof -
  let ?I = "CommandRunner_init example_config"
  let ?e = "\<lparr>fn = H_patron_info, desc = ''Send a 63 Patron Information Request message.''\<rparr>"
  have reg: "commands ?I ''patron-info'' = Some ?e"
    by (rule patron_info_registered)
  note t = dispatch_never_arity_error [of ?I "''patron-info''" ?e accepting
      "[''1'', ''2'', ''3'']" "''1''" "[''2'', ''3'']"]
  from t reg have a: "dispatch accepting ?I [''patron-info'', ''1'', ''2'', ''3'']
      = call_handler accepting (fn ?e) ?I [''1'', ''2'', ''3'']"
    and b: "fst (dispatch accepting ?I [''patron-info'', ''1'', ''2'', ''3''])
      \<noteq> Inl TypeError_args"
    and c: "patron_info accepting ?I [''1'', ''2'', ''3''] = patron_info accepting ?I [''1'']"
    by blast+
  from a have a': "dispatch accepting ?I [''patron-info'', ''1'', ''2'', ''3'']
      = patron_info accepting ?I [''1'', ''2'', ''3'']"
    by simp
  from reg a' b c show ?thesis by blast
qed

end
